theory Spec2Isabelle
  imports Complex_Main
begin

section \<open>JavaScript numbers\<close>

text \<open>
  The scoring code of \<^verbatim>\<open>server.js\<close> computes with JavaScript Numbers. A Number is
  modelled as an exact real or as \<open>NaN\<close>: comparisons with \<open>NaN\<close> are false and
  arithmetic on \<open>NaN\<close> gives \<open>NaN\<close>, as in the language. The rounding error of binary
  floating point and the two infinities are outside the model.
\<close>

datatype number = Num real | NaN

fun gt :: "number \<Rightarrow> number \<Rightarrow> bool" where
  "gt (Num a) (Num b) = (a > b)"
| "gt _ _ = False"

fun lt :: "number \<Rightarrow> number \<Rightarrow> bool" where
  "lt (Num a) (Num b) = (a < b)"
| "lt _ _ = False"

fun le :: "number \<Rightarrow> number \<Rightarrow> bool" where
  "le (Num a) (Num b) = (a \<le> b)"
| "le _ _ = False"

fun add :: "number \<Rightarrow> number \<Rightarrow> number" where
  "add (Num a) (Num b) = Num (a + b)"
| "add _ _ = NaN"

fun mul :: "number \<Rightarrow> number \<Rightarrow> number" where
  "mul (Num a) (Num b) = Num (a * b)"
| "mul _ _ = NaN"

text \<open>Division; the code divides by the non-zero constants 50, 6 and 100 only.\<close>

fun divide_num :: "number \<Rightarrow> number \<Rightarrow> number" where
  "divide_num (Num a) (Num b) = (if b = 0 then NaN else Num (a / b))"
| "divide_num _ _ = NaN"

text \<open>\<^verbatim>\<open>Math.round\<close> rounds to the nearest integer, a half towards plus infinity.\<close>

fun Math_round :: "number \<Rightarrow> number" where
  "Math_round (Num a) = Num (of_int \<lfloor>a + 1 / 2\<rfloor>)"
| "Math_round NaN = NaN"

fun Math_min :: "number \<Rightarrow> number \<Rightarrow> number" where
  "Math_min (Num a) (Num b) = Num (min a b)"
| "Math_min _ _ = NaN"

fun Math_max :: "number \<Rightarrow> number \<Rightarrow> number" where
  "Math_max (Num a) (Num b) = Num (max a b)"
| "Math_max _ _ = NaN"

section \<open>The heuristic: \<^verbatim>\<open>calculateRiskFallback\<close>\<close>

text \<open>
  The function body is a sequence of updates of the local variable \<^verbatim>\<open>risk\<close>; each
  \<open>let\<close> below is one statement of the source, in the source's order.
\<close>

definition calculateRiskFallback :: "number \<Rightarrow> number \<Rightarrow> number \<Rightarrow> number" where
  "calculateRiskFallback rainfall waterLevel soilMoisture =
     (let risk0 = Num 0;
          risk1 = (if gt rainfall (Num 50) then add risk0 (Num 45)
                   else if gt rainfall (Num 30) then add risk0 (Num 38)
                   else if gt rainfall (Num 20) then add risk0 (Num 28)
                   else if gt rainfall (Num 10) then add risk0 (Num 18)
                   else if gt rainfall (Num 5) then add risk0 (Num 10)
                   else add risk0 rainfall);
          risk2 = (if gt waterLevel (Num 5) then add risk1 (Num 35)
                   else if gt waterLevel (Num 4) then add risk1 (Num 28)
                   else if gt waterLevel (Num 3) then add risk1 (Num 20)
                   else if gt waterLevel (Num 2.5) then add risk1 (Num 12)
                   else if gt waterLevel (Num 2) then add risk1 (Num 5)
                   else risk1);
          risk3 = (if gt soilMoisture (Num 0.9) then add risk2 (Num 20)
                   else if gt soilMoisture (Num 0.8) then add risk2 (Num 16)
                   else if gt soilMoisture (Num 0.7) then add risk2 (Num 12)
                   else if gt soilMoisture (Num 0.6) then add risk2 (Num 8)
                   else if gt soilMoisture (Num 0.5) then add risk2 (Num 4)
                   else risk2);
          risk4 = (if gt rainfall (Num 20) \<and> gt waterLevel (Num 3) \<and> gt soilMoisture (Num 0.7)
                   then Math_min (mul risk3 (Num 1.3)) (Num 100)
                   else risk3)
      in Math_min (Math_round risk4) (Num 100))"

text \<open>The classification of a score, as the ingestion cycle computes it (line 365).\<close>

definition riskLevelOf :: "number \<Rightarrow> string" where
  "riskLevelOf riskPercent =
     (if lt riskPercent (Num 30) then ''low''
      else if lt riskPercent (Num 70) then ''medium''
      else ''high'')"

subsection \<open>The heuristic on reals\<close>

text \<open>
  On Numbers that are not \<open>NaN\<close> the heuristic is a function of three reals. The three
  bucket tables, their sum, the condition of the combined-risk multiplier and the value
  before the final rounding are named here; \<open>calc_Num\<close> below proves that
  \<open>calculateRiskFallback\<close> computes \<open>heuristic\<close>.
\<close>

definition rainfallPoints :: "real \<Rightarrow> real" where
  "rainfallPoints r =
     (if r > 50 then 45 else if r > 30 then 38 else if r > 20 then 28
      else if r > 10 then 18 else if r > 5 then 10 else r)"

definition waterPoints :: "real \<Rightarrow> real" where
  "waterPoints w =
     (if w > 5 then 35 else if w > 4 then 28 else if w > 3 then 20
      else if w > 2.5 then 12 else if w > 2 then 5 else 0)"

definition soilPoints :: "real \<Rightarrow> real" where
  "soilPoints s =
     (if s > 0.9 then 20 else if s > 0.8 then 16 else if s > 0.7 then 12
      else if s > 0.6 then 8 else if s > 0.5 then 4 else 0)"

definition bucketSum :: "real \<Rightarrow> real \<Rightarrow> real \<Rightarrow> real" where
  "bucketSum r w s = rainfallPoints r + waterPoints w + soilPoints s"

definition combinedRisk :: "real \<Rightarrow> real \<Rightarrow> real \<Rightarrow> bool" where
  "combinedRisk r w s \<longleftrightarrow> r > 20 \<and> w > 3 \<and> s > 0.7"

definition scaled :: "real \<Rightarrow> real \<Rightarrow> real \<Rightarrow> real" where
  "scaled r w s =
     (if combinedRisk r w s then min (bucketSum r w s * 1.3) 100 else bucketSum r w s)"

definition heuristic :: "real \<Rightarrow> real \<Rightarrow> real \<Rightarrow> real" where
  "heuristic r w s =
     min (of_int \<lfloor>(if combinedRisk r w s then min (bucketSum r w s * 1.3) 100
                    else bucketSum r w s) + 1 / 2\<rfloor>) 100"

section \<open>The risk engine: \<^verbatim>\<open>loadModel\<close> and \<^verbatim>\<open>predictFloodRisk\<close>\<close>

datatype error = TypeError | Timeout | NetworkError | HttpStatus nat | Error string

text \<open>
  The three module-level variables of section 6 of \<^verbatim>\<open>server.js\<close>. A loaded model is an
  opaque handle of type \<open>'m\<close>. The field \<open>loadAttempts\<close> is instrumentation: it counts
  how often the \<^verbatim>\<open>try\<close> block of \<^verbatim>\<open>loadModel\<close> has been entered.
\<close>

record 'm engine =
  model :: "'m option"
  modelLoadAttempted :: bool
  usingFallback :: bool
  loadAttempts :: nat

definition engine_init :: "'m engine" where
  "engine_init = \<lparr>model = None, modelLoadAttempted = False, usingFallback = False,
                   loadAttempts = 0\<rparr>"

text \<open>
  What the process finds outside itself when it scores: whether each TensorFlow package
  can be required, whether \<^verbatim>\<open>ai-model/model.json\<close> exists, what \<^verbatim>\<open>tf.loadLayersModel\<close>
  does, and what inference does with a model and an input row (tensor construction,
  \<^verbatim>\<open>predict\<close>, \<^verbatim>\<open>dataSync()[0]\<close> and \<^verbatim>\<open>tf.dispose\<close>: the first output, or a throw).
\<close>

record 'm tf_env =
  tfjs_ready :: bool
  tfjs_node :: bool
  model_file_exists :: bool
  loadLayersModel :: "error + 'm"
  predict :: "'m \<Rightarrow> number list \<Rightarrow> error + number"

definition loadModel :: "'m tf_env \<Rightarrow> 'm engine \<Rightarrow> 'm option \<times> 'm engine" where
  "loadModel env st =
     (if model st \<noteq> None then (model st, st)
      else if modelLoadAttempted st then (None, st)
      else
        let st1 = st\<lparr>modelLoadAttempted := True, loadAttempts := loadAttempts st + 1\<rparr>
        in if \<not> tfjs_ready env \<and> \<not> tfjs_node env
           then (None, st1\<lparr>usingFallback := True\<rparr>)
           else if \<not> model_file_exists env
           then (None, st1\<lparr>usingFallback := True\<rparr>)
           else (case loadLayersModel env of
                   Inr m \<Rightarrow> (Some m, st1\<lparr>model := Some m\<rparr>)
                 | Inl err \<Rightarrow> (None, st1\<lparr>usingFallback := True\<rparr>)))"

definition predictFloodRisk ::
  "'m tf_env \<Rightarrow> number \<Rightarrow> number \<Rightarrow> number \<Rightarrow> 'm engine \<Rightarrow> number \<times> 'm engine" where
  "predictFloodRisk env rainfall waterLevel soilMoisture st =
     (let (loadedModel, st1) = loadModel env st
      in case loadedModel of
           None \<Rightarrow> (calculateRiskFallback rainfall waterLevel soilMoisture, st1)
         | Some m \<Rightarrow>
             if \<not> tfjs_ready env \<and> \<not> tfjs_node env
             then (calculateRiskFallback rainfall waterLevel soilMoisture, st1)
             else
               let input = [divide_num rainfall (Num 50), soilMoisture,
                            divide_num waterLevel (Num 6), Num 0.05, Num 0.05]
               in (case predict env m input of
                     Inr out \<Rightarrow>
                       let riskPercent = Math_round (mul out (Num 100))
                       in (Math_max (Num 0) (Math_min riskPercent (Num 100)), st1)
                   | Inl err \<Rightarrow>
                       (calculateRiskFallback rainfall waterLevel soilMoisture, st1)))"

text \<open>A process lifetime, seen from the engine: the scoring calls one after the other.\<close>

record 'm score_call =
  call_env :: "'m tf_env"
  call_rainfall :: number
  call_waterLevel :: number
  call_soilMoisture :: number

fun scoreAll :: "'m score_call list \<Rightarrow> 'm engine \<Rightarrow> 'm engine" where
  "scoreAll [] st = st"
| "scoreAll (c # cs) st =
     scoreAll cs (snd (predictFloodRisk (call_env c) (call_rainfall c) (call_waterLevel c)
                        (call_soilMoisture c) st))"

text \<open>
  What holds of the engine's variables in every state a process reaches, and the
  environments and the state used as concrete inputs below.
\<close>

definition engine_inv :: "'m engine \<Rightarrow> bool" where
  "engine_inv st \<longleftrightarrow>
     (if usingFallback st then model st = None \<and> modelLoadAttempted st else True) \<and>
     (if model st = None then True else modelLoadAttempted st) \<and>
     loadAttempts st = (if modelLoadAttempted st then 1 else 0)"

definition env_model_absent :: "unit tf_env" where
  "env_model_absent =
     \<lparr>tfjs_ready = True, tfjs_node = False, model_file_exists = False,
      loadLayersModel = Inl (Error ''ENOENT''), predict = (\<lambda>m input. Inl (Error ''no model''))\<rparr>"

definition env_model_present :: "unit tf_env" where
  "env_model_present =
     \<lparr>tfjs_ready = True, tfjs_node = False, model_file_exists = True,
      loadLayersModel = Inr (), predict = (\<lambda>m input. Inr (Num 0.42))\<rparr>"

definition env_inference_throws :: "unit tf_env" where
  "env_inference_throws =
     \<lparr>tfjs_ready = True, tfjs_node = False, model_file_exists = True,
      loadLayersModel = Inr (), predict = (\<lambda>m input. Inl (Error ''shape mismatch''))\<rparr>"

definition engine_model_ready :: "unit engine" where
  "engine_model_ready =
     \<lparr>model = Some (), modelLoadAttempted = True, usingFallback = False, loadAttempts = 1\<rparr>"

definition env_negative_output :: "unit tf_env" where
  "env_negative_output =
     \<lparr>tfjs_ready = True, tfjs_node = False, model_file_exists = True,
      loadLayersModel = Inr (), predict = (\<lambda>m input. Inr (Num (- 0.5)))\<rparr>"

text \<open>A loaded model whose first output is \<open>NaN\<close>, as it is on an input row holding \<open>NaN\<close>.\<close>

definition env_nan_output :: "unit tf_env" where
  "env_nan_output =
     \<lparr>tfjs_ready = True, tfjs_node = False, model_file_exists = True,
      loadLayersModel = Inr (), predict = (\<lambda>m input. Inr NaN)\<rparr>"

section \<open>Provider responses and the three fetch functions\<close>

text \<open>
  The body of a provider's response, as \<^verbatim>\<open>res.data\<close> holds it. An object is an
  association list whose first binding of a name is the property's value. \<open>JFun\<close> is a
  built-in function object: of the property names the fetch functions read, only
  \<^verbatim>\<open>values\<close> is also a built-in property, of arrays.
\<close>

datatype jsval =
    JUndefined
  | JNull
  | JBool bool
  | JNum number
  | JStr string
  | JArr "jsval list"
  | JObj "(string \<times> jsval) list"
  | JFun

fun truthy :: "jsval \<Rightarrow> bool" where
  "truthy JUndefined = False"
| "truthy JNull = False"
| "truthy (JBool b) = b"
| "truthy (JNum NaN) = False"
| "truthy (JNum (Num x)) = (x \<noteq> 0)"
| "truthy (JStr s) = (s \<noteq> [])"
| "truthy (JArr xs) = True"
| "truthy (JObj kvs) = True"
| "truthy JFun = True"

text \<open>Property access \<^verbatim>\<open>v.name\<close>: a TypeError on \<^verbatim>\<open>undefined\<close> and \<^verbatim>\<open>null\<close>.\<close>

fun getp :: "jsval \<Rightarrow> string \<Rightarrow> error + jsval" where
  "getp JUndefined name = Inl TypeError"
| "getp JNull name = Inl TypeError"
| "getp (JObj kvs) name = Inr (case map_of kvs name of Some v \<Rightarrow> v | None \<Rightarrow> JUndefined)"
| "getp (JArr xs) name = Inr (if name = ''values'' then JFun else JUndefined)"
| "getp v name = Inr JUndefined"

text \<open>Element access \<^verbatim>\<open>v[0]\<close>.\<close>

fun get0 :: "jsval \<Rightarrow> error + jsval" where
  "get0 JUndefined = Inl TypeError"
| "get0 JNull = Inl TypeError"
| "get0 (JArr xs) = Inr (case xs of [] \<Rightarrow> JUndefined | x # rest \<Rightarrow> x)"
| "get0 (JStr s) = Inr (case s of [] \<Rightarrow> JUndefined | c # rest \<Rightarrow> JStr [c])"
| "get0 (JObj kvs) = Inr (case map_of kvs ''0'' of Some v \<Rightarrow> v | None \<Rightarrow> JUndefined)"
| "get0 v = Inr JUndefined"

text \<open>Optional chaining \<^verbatim>\<open>v?.name\<close> and \<^verbatim>\<open>v?.[0]\<close>: \<^verbatim>\<open>undefined\<close> instead of the TypeError.\<close>

definition opt_getp :: "jsval \<Rightarrow> string \<Rightarrow> jsval" where
  "opt_getp v name = (case getp v name of Inr x \<Rightarrow> x | Inl err \<Rightarrow> JUndefined)"

definition opt_get0 :: "jsval \<Rightarrow> jsval" where
  "opt_get0 v = (case get0 v of Inr x \<Rightarrow> x | Inl err \<Rightarrow> JUndefined)"

definition and_then :: "error + 'a \<Rightarrow> ('a \<Rightarrow> error + 'b) \<Rightarrow> error + 'b" where
  "and_then r f = (case r of Inl err \<Rightarrow> Inl err | Inr x \<Rightarrow> f x)"

text \<open>One external observation: \<^verbatim>\<open>{ value, source }\<close>.\<close>

record reading =
  rvalue :: number
  rsource :: string

text \<open>
  Each fetch function is a \<^verbatim>\<open>try\<close> block and a \<^verbatim>\<open>catch\<close> that returns the fallback. The
  \<open>_try\<close> function is the block after the request has resolved with a body; the request
  itself (\<^verbatim>\<open>axios.get\<close> with its timeout) either rejects with an error, as it does on a
  timeout, a network error and a status outside 2xx, or resolves with the body.
\<close>

definition fetchRainfallData_try :: "jsval \<Rightarrow> error + reading" where
  "fetchRainfallData_try data =
     and_then (getp data ''list'') (\<lambda>list.
     and_then (get0 list) (\<lambda>firstForecast.
     and_then (getp firstForecast ''rain'') (\<lambda>rain.
       \<comment> \<open>the line computing \<^verbatim>\<open>pop\<close> reads a property of the same object and formats a
          Number: it cannot throw once \<^verbatim>\<open>firstForecast.rain\<close> has been read\<close>
       let r3h = opt_getp rain ''3h'';
           rainfall = (if truthy r3h then r3h else JNum (Num 0))
       in case rainfall of
            JNum n \<Rightarrow> Inr \<lparr>rvalue = n, rsource = ''OpenWeatherMap''\<rparr>
          | _ \<Rightarrow> Inl TypeError)))"

definition fetchRainfallData :: "error + jsval \<Rightarrow> reading" where
  "fetchRainfallData response =
     (case and_then response fetchRainfallData_try of
        Inr r \<Rightarrow> r
      | Inl err \<Rightarrow> \<lparr>rvalue = Num 0, rsource = ''fallback''\<rparr>)"

text \<open>\<^verbatim>\<open>parseFloat\<close> is the language's; it is a parameter here and always gives a Number.\<close>

definition fetchWaterLevel_try :: "(jsval \<Rightarrow> number) \<Rightarrow> jsval \<Rightarrow> error + reading" where
  "fetchWaterLevel_try parseFloat data =
     and_then (getp data ''value'') (\<lambda>v.
       let val = opt_getp (opt_get0 (opt_getp (opt_get0 (opt_getp (opt_get0
                   (opt_getp v ''timeSeries'')) ''values'')) ''value'')) ''value'';
           waterLevel = (if truthy val then parseFloat val else Num 2.1)
       in Inr \<lparr>rvalue = waterLevel, rsource = ''USGS''\<rparr>)"

definition fetchWaterLevel :: "(jsval \<Rightarrow> number) \<Rightarrow> error + jsval \<Rightarrow> reading" where
  "fetchWaterLevel parseFloat response =
     (case and_then response (fetchWaterLevel_try parseFloat) of
        Inr r \<Rightarrow> r
      | Inl err \<Rightarrow> \<lparr>rvalue = Num 2.1, rsource = ''fallback''\<rparr>)"

text \<open>
  \<^verbatim>\<open>mean / 100\<close> converts \<^verbatim>\<open>mean\<close> to a Number first; the conversion of a value that
  is not a Number already is the language's and a parameter here.
\<close>

definition fetchSoilMoisture_try :: "(jsval \<Rightarrow> number) \<Rightarrow> jsval \<Rightarrow> error + reading" where
  "fetchSoilMoisture_try toNumber data =
     and_then (getp data ''properties'') (\<lambda>properties.
     and_then (getp properties ''layers'') (\<lambda>layers.
     and_then (get0 layers) (\<lambda>layer.
     and_then (getp layer ''depths'') (\<lambda>depths.
     and_then (get0 depths) (\<lambda>depth.
     and_then (getp depth ''values'') (\<lambda>vals.
     and_then (getp vals ''mean'') (\<lambda>mean.
       let moisture =
             (if truthy mean
              then divide_num (case mean of JNum n \<Rightarrow> n | _ \<Rightarrow> toNumber mean) (Num 100)
              else Num 0.5)
       in Inr \<lparr>rvalue = moisture, rsource = ''SoilGrids''\<rparr>)))))))"

definition fetchSoilMoisture :: "(jsval \<Rightarrow> number) \<Rightarrow> error + jsval \<Rightarrow> reading" where
  "fetchSoilMoisture toNumber response =
     (case and_then response (fetchSoilMoisture_try toNumber) of
        Inr r \<Rightarrow> r
      | Inl err \<Rightarrow> \<lparr>rvalue = Num 0.5, rsource = ''fallback''\<rparr>)"

text \<open>Two responses that lack the value without making the reading throw.\<close>

definition usgs_no_series :: jsval where
  "usgs_no_series = JObj [(''value'', JObj [(''timeSeries'', JArr [])])]"

definition soilgrids_null_mean :: jsval where
  "soilgrids_null_mean =
     JObj [(''properties'', JObj [(''layers'', JArr [JObj [(''depths'',
       JArr [JObj [(''values'', JObj [(''mean'', JNull)])]])]])])]"

section \<open>Records, alerts and the ingestion cycle\<close>

record dataSource =
  src_rainfall :: string
  src_waterLevel :: string
  src_soilMoisture :: string

text \<open>A document of the \<^verbatim>\<open>FloodData\<close> collection; \<open>oid\<close> is its \<^verbatim>\<open>_id\<close>.\<close>

record FloodData =
  oid :: nat
  timestamp :: nat
  lat :: number
  lng :: number
  rainfall :: number
  waterLevel :: number
  soilMoisture :: number
  prediction :: number
  riskLevel :: string
  sentAlert :: bool
  dataSource :: dataSource

text \<open>
  The push message of \<^verbatim>\<open>sendFloodAlert\<close>. Title and body are formatted from the
  fields kept here; the formatting itself is not modelled.
\<close>

record message =
  topic :: string
  msg_level :: string
  msg_risk :: number
  msg_lat :: number
  msg_lng :: number
  msg_rainfall :: number

text \<open>
  The process and what it has done to the outside: the engine's variables, the flag
  \<^verbatim>\<open>firebaseInitialized\<close>, the stored collection, the \<^verbatim>\<open>floodUpdate\<close> events emitted
  and the messages handed to \<^verbatim>\<open>admin.messaging().send\<close>.
\<close>

record 'm server =
  engine :: "'m engine"
  firebaseInitialized :: bool
  db :: "FloodData list"
  emitted :: "FloodData list"
  fcm_requests :: "message list"

text \<open>\<^verbatim>\<open>doc.save()\<close>: insert a new document, or overwrite the stored one of the same id.\<close>

definition save_doc :: "FloodData \<Rightarrow> FloodData list \<Rightarrow> FloodData list" where
  "save_doc d docs =
     (if oid d \<in> set (map oid docs)
      then map (\<lambda>x. if oid x = oid d then d else x) docs
      else docs @ [d])"

text \<open>
  \<open>send_ok\<close> and \<open>save_ok\<close> say whether the two awaited calls of the \<^verbatim>\<open>try\<close> block
  resolve. The function returns the document it was given, as mutated, and the state.
\<close>

definition sendFloodAlert ::
  "bool \<Rightarrow> bool \<Rightarrow> FloodData \<Rightarrow> 'm server \<Rightarrow> FloodData \<times> 'm server" where
  "sendFloodAlert send_ok save_ok data st =
     (if \<not> firebaseInitialized st \<or> sentAlert data then (data, st)
      else
        let msg = \<lparr>topic = ''flood_alerts'', msg_level = riskLevel data,
                   msg_risk = prediction data, msg_lat = lat data, msg_lng = lng data,
                   msg_rainfall = rainfall data\<rparr>;
            st1 = st\<lparr>fcm_requests := fcm_requests st @ [msg]\<rparr>
        in if \<not> send_ok then (data, st1)
           else
             let data1 = data\<lparr>sentAlert := True\<rparr>
             in if save_ok then (data1, st1\<lparr>db := save_doc data1 (db st1)\<rparr>)
                else (data1, st1))"

text \<open>Repeated alert attempts on one document: the document after each attempt.\<close>

fun alertAttempts ::
  "(bool \<times> bool) list \<Rightarrow> FloodData \<Rightarrow> 'm server \<Rightarrow> FloodData list" where
  "alertAttempts [] data st = []"
| "alertAttempts ((send_ok, save_ok) # rest) data st =
     (let (data1, st1) = sendFloodAlert send_ok save_ok data st
      in data1 # alertAttempts rest data1 st1)"

text \<open>Everything one cycle finds outside the process.\<close>

record 'm cycle_env =
  tf :: "'m tf_env"
  owm :: "error + jsval"
  usgs :: "error + jsval"
  soilgrids :: "error + jsval"
  js_parseFloat :: "jsval \<Rightarrow> number"
  js_toNumber :: "jsval \<Rightarrow> number"
  now :: nat
  new_id :: nat
  insert_ok :: bool
  send_ok :: bool
  update_ok :: bool

text \<open>The task scheduled every ten minutes (section 9 of \<^verbatim>\<open>server.js\<close>).\<close>

definition cron_task :: "'m cycle_env \<Rightarrow> 'm server \<Rightarrow> 'm server" where
  "cron_task env st =
     (let rainfallData = fetchRainfallData (owm env);
          waterLevelData = fetchWaterLevel (js_parseFloat env) (usgs env);
          soilMoistureData = fetchSoilMoisture (js_toNumber env) (soilgrids env);
          (riskPercent, eng) =
             predictFloodRisk (tf env) (rvalue rainfallData) (rvalue waterLevelData)
               (rvalue soilMoistureData) (engine st);
          st1 = st\<lparr>engine := eng\<rparr>;
          level = riskLevelOf riskPercent;
          newData = \<lparr>oid = new_id env, timestamp = now env, lat = Num 6.45, lng = Num 3.39,
                     rainfall = rvalue rainfallData, waterLevel = rvalue waterLevelData,
                     soilMoisture = rvalue soilMoistureData, prediction = riskPercent,
                     riskLevel = level, sentAlert = False,
                     dataSource = \<lparr>src_rainfall = rsource rainfallData,
                                    src_waterLevel = rsource waterLevelData,
                                    src_soilMoisture = rsource soilMoistureData\<rparr>\<rparr>
      in if \<not> insert_ok env then st1
         else
           let st2 = st1\<lparr>db := save_doc newData (db st1)\<rparr>;
               st3 = st2\<lparr>emitted := emitted st2 @ [newData]\<rparr>
           in if level \<noteq> ''low''
              then snd (sendFloodAlert (send_ok env) (update_ok env) newData st3)
              else st3)"

text \<open>
  The handler of \<^verbatim>\<open>POST /api/trigger\<close>. It answers, and 100 ms later schedules a new
  task, not started, and calls \<^verbatim>\<open>.now()\<close> on it, which is taken to run the task's
  callback once. The new task's callback is \<^verbatim>\<open>async () => { // Run once }\<close>: an
  empty body, which is not the callback of the task scheduled every ten minutes.
\<close>

definition manual_task :: "'m server \<Rightarrow> 'm server" where
  "manual_task st = st"

definition post_api_trigger :: "'m server \<Rightarrow> string \<times> 'm server" where
  "post_api_trigger st = (''Data fetch triggered'', manual_task st)"

definition server_init :: "bool \<Rightarrow> 'm server" where
  "server_init fb = \<lparr>engine = engine_init, firebaseInitialized = fb, db = [],
                      emitted = [], fcm_requests = []\<rparr>"

text \<open>Concrete inputs for the theorems on alerts and cycles.\<close>

definition env_all_down :: "unit cycle_env" where
  "env_all_down =
     \<lparr>tf = env_model_absent, owm = Inl Timeout, usgs = Inl (HttpStatus 503),
      soilgrids = Inl NetworkError, js_parseFloat = (\<lambda>v. NaN), js_toNumber = (\<lambda>v. NaN),
      now = 0, new_id = 1, insert_ok = True, send_ok = True, update_ok = True\<rparr>"

definition example_record :: FloodData where
  "example_record =
     \<lparr>oid = 1, timestamp = 0, lat = Num 6.45, lng = Num 3.39, rainfall = Num 45,
      waterLevel = Num 4.2, soilMoisture = Num 0.7, prediction = Num 74, riskLevel = ''high'',
      sentAlert = False,
      dataSource = \<lparr>src_rainfall = ''OpenWeatherMap'', src_waterLevel = ''USGS'',
                     src_soilMoisture = ''SoilGrids''\<rparr>\<rparr>"

definition example_server :: "unit server" where
  "example_server = (server_init True)\<lparr>db := [example_record]\<rparr>"

section \<open>Properties of the heuristic\<close>

lemma rain_stage:
  "(if gt (Num r) (Num 50) then add (Num 0) (Num 45)
    else if gt (Num r) (Num 30) then add (Num 0) (Num 38)
    else if gt (Num r) (Num 20) then add (Num 0) (Num 28)
    else if gt (Num r) (Num 10) then add (Num 0) (Num 18)
    else if gt (Num r) (Num 5) then add (Num 0) (Num 10)
    else add (Num 0) (Num r)) = Num (rainfallPoints r)"
  by (simp add: rainfallPoints_def)

lemma water_stage:
  "(if gt (Num w) (Num 5) then add (Num x) (Num 35)
    else if gt (Num w) (Num 4) then add (Num x) (Num 28)
    else if gt (Num w) (Num 3) then add (Num x) (Num 20)
    else if gt (Num w) (Num 2.5) then add (Num x) (Num 12)
    else if gt (Num w) (Num 2) then add (Num x) (Num 5)
    else Num x) = Num (x + waterPoints w)"
  by (simp add: waterPoints_def)

lemma soil_stage:
  "(if gt (Num s) (Num 0.9) then add (Num x) (Num 20)
    else if gt (Num s) (Num 0.8) then add (Num x) (Num 16)
    else if gt (Num s) (Num 0.7) then add (Num x) (Num 12)
    else if gt (Num s) (Num 0.6) then add (Num x) (Num 8)
    else if gt (Num s) (Num 0.5) then add (Num x) (Num 4)
    else Num x) = Num (x + soilPoints s)"
  by (simp add: soilPoints_def)

lemma multiplier_stage:
  "Math_min (Math_round
     (if gt (Num r) (Num 20) \<and> gt (Num w) (Num 3) \<and> gt (Num s) (Num 0.7)
      then Math_min (mul (Num x) (Num 1.3)) (Num 100) else Num x)) (Num 100)
   = Num (min (of_int \<lfloor>(if combinedRisk r w s then min (x * 1.3) 100 else x) + 1 / 2\<rfloor>) 100)"
  by (simp add: combinedRisk_def)

lemma calc_Num:
  "calculateRiskFallback (Num r) (Num w) (Num s) = Num (heuristic r w s)"
  unfolding calculateRiskFallback_def heuristic_def bucketSum_def
  by (simp only: Let_def rain_stage water_stage soil_stage multiplier_stage)

lemma rainfallPoints_bounds: "0 \<le> r \<Longrightarrow> 0 \<le> rainfallPoints r \<and> rainfallPoints r \<le> 45"
  by (simp add: rainfallPoints_def)

lemma waterPoints_bounds: "0 \<le> waterPoints w \<and> waterPoints w \<le> 35"
  by (simp add: waterPoints_def)

lemma soilPoints_bounds: "0 \<le> soilPoints s \<and> soilPoints s \<le> 20"
  by (simp add: soilPoints_def)

lemma rainfallPoints_mono: "r1 \<le> r2 \<Longrightarrow> rainfallPoints r1 \<le> rainfallPoints r2"
  by (simp add: rainfallPoints_def)

lemma waterPoints_mono: "w1 \<le> w2 \<Longrightarrow> waterPoints w1 \<le> waterPoints w2"
  by (simp add: waterPoints_def)

lemma soilPoints_mono: "s1 \<le> s2 \<Longrightarrow> soilPoints s1 \<le> soilPoints s2"
  by (simp add: soilPoints_def)


lemma bucketSum_le: "bucketSum r w s \<le> 100"
proof -
  have "rainfallPoints r \<le> 45" by (simp add: rainfallPoints_def)
  with waterPoints_bounds [of w] soilPoints_bounds [of s] show ?thesis
    by (simp add: bucketSum_def)
qed

lemma bucketSum_nonneg: "0 \<le> r \<Longrightarrow> 0 \<le> bucketSum r w s"
  using rainfallPoints_bounds [of r] waterPoints_bounds [of w] soilPoints_bounds [of s]
  by (simp add: bucketSum_def)

lemma bucketSum_mono:
  "r1 \<le> r2 \<Longrightarrow> w1 \<le> w2 \<Longrightarrow> s1 \<le> s2 \<Longrightarrow> bucketSum r1 w1 s1 \<le> bucketSum r2 w2 s2"
  using rainfallPoints_mono [of r1 r2] waterPoints_mono [of w1 w2] soilPoints_mono [of s1 s2]
  by (simp add: bucketSum_def)

lemma heuristic_scaled: "heuristic r w s = of_int (min \<lfloor>scaled r w s + 1 / 2\<rfloor> 100)"
  by (simp add: heuristic_def scaled_def)

lemma scaled_nonneg: "0 \<le> r \<Longrightarrow> 0 \<le> scaled r w s"
  using bucketSum_nonneg [of r w s] by (simp add: scaled_def)

lemma combined_bucketSum_nonneg: "combinedRisk r w s \<Longrightarrow> 0 \<le> bucketSum r w s"
  by (rule bucketSum_nonneg) (simp add: combinedRisk_def)

lemma scaled_mono:
  assumes "r1 \<le> r2" "w1 \<le> w2" "s1 \<le> s2"
  shows "scaled r1 w1 s1 \<le> scaled r2 w2 s2"
proof -
  have b: "bucketSum r1 w1 s1 \<le> bucketSum r2 w2 s2"
    using assms by (rule bucketSum_mono)
  show ?thesis
  proof (cases "combinedRisk r1 w1 s1")
    case True
    then have "combinedRisk r2 w2 s2"
      using assms by (simp add: combinedRisk_def)
    with True b show ?thesis by (simp add: scaled_def min_le_iff_disj)
  next
    case False
    show ?thesis
    proof (cases "combinedRisk r2 w2 s2")
      case True
      from combined_bucketSum_nonneg [OF True] have "bucketSum r2 w2 s2 \<le> bucketSum r2 w2 s2 * 1.3"
        by simp
      with b bucketSum_le [of r1 w1 s1] True False show ?thesis
        by (simp add: scaled_def)
    next
      case False2: False
      with False b show ?thesis by (simp add: scaled_def)
    qed
  qed
qed

lemma heuristic_mono:
  assumes "r1 \<le> r2" "w1 \<le> w2" "s1 \<le> s2"
  shows "heuristic r1 w1 s1 \<le> heuristic r2 w2 s2"
proof -
  have "\<lfloor>scaled r1 w1 s1 + 1 / 2\<rfloor> \<le> \<lfloor>scaled r2 w2 s2 + 1 / 2\<rfloor>"
    using scaled_mono [OF assms] by (intro floor_mono) simp
  then show ?thesis
    unfolding heuristic_scaled by (simp add: min_le_iff_disj)
qed

lemma heuristic_range:
  assumes "0 \<le> r"
  shows "\<exists>k::int. heuristic r w s = of_int k \<and> 0 \<le> k \<and> k \<le> 100"
proof -
  have "0 \<le> \<lfloor>scaled r w s + 1 / 2\<rfloor>"
    using scaled_nonneg [OF assms, of w s] by simp
  then have "0 \<le> min \<lfloor>scaled r w s + 1 / 2\<rfloor> 100 \<and> min \<lfloor>scaled r w s + 1 / 2\<rfloor> 100 \<le> 100"
    by simp
  then show ?thesis
    unfolding heuristic_scaled by blast
qed

lemma calc_water_NaN:
  "calculateRiskFallback r NaN s = calculateRiskFallback r (Num 0) s"
  by (simp add: calculateRiskFallback_def split del: if_split)

lemma calc_soil_NaN:
  "calculateRiskFallback r w NaN = calculateRiskFallback r w (Num 0)"
  by (simp add: calculateRiskFallback_def split del: if_split)

lemma calc_range:
  assumes "0 \<le> r"
  shows "\<exists>k::int. calculateRiskFallback (Num r) w s = Num (of_int k) \<and> 0 \<le> k \<and> k \<le> 100"
proof -
  obtain w' s' where "calculateRiskFallback (Num r) w s = calculateRiskFallback (Num r) (Num w') (Num s')"
    by (cases w; cases s) (auto simp: calc_water_NaN calc_soil_NaN)
  then show ?thesis
    using heuristic_range [OF assms] by (simp add: calc_Num)
qed


section \<open>The claims about the heuristic\<close>

text \<open>
  Claim C1, as stated, fails: at rainfall 45, water level 4.2 and soil moisture 0.7 the
  heuristic does not return 78.
\<close>

theorem scenario_45_score_is_not_78:
  "calculateRiskFallback (Num 45) (Num 4.2) (Num 0.7) \<noteq> Num 78"
  by (simp add: calculateRiskFallback_def)

text \<open>
  Claim C1, amended: at rainfall 45, water level 4.2 and soil moisture 0.7 the buckets
  give 38 (rainfall above 30), 28 (water level above 4) and 8 (soil moisture above 0.6,
  since 0.7 is not strictly above 0.7), in sum 74; the multiplier does not apply for the
  same reason; the score is 74, which classifies as high.
\<close>

theorem scenario_45_score_is_74:
  "rainfallPoints 45 = 38 \<and> waterPoints 4.2 = 28 \<and> soilPoints 0.7 = 8 \<and>
   bucketSum 45 4.2 0.7 = 74 \<and> \<not> gt (Num 0.7) (Num 0.7) \<and>
   calculateRiskFallback (Num 45) (Num 4.2) (Num 0.7) = Num 74 \<and>
   riskLevelOf (calculateRiskFallback (Num 45) (Num 4.2) (Num 0.7)) = ''high''"
  by (simp add: calculateRiskFallback_def riskLevelOf_def bucketSum_def rainfallPoints_def
      waterPoints_def soilPoints_def)

text \<open>
  Claim C3: for rainfall in [0,60], water level in [0,6] and soil moisture in [0,1] the
  score of \<open>calculateRiskFallback\<close> is an integer between 0 and 100.
\<close>

theorem heuristic_score_in_range:
  assumes "0 \<le> r" "r \<le> 60" "0 \<le> w" "w \<le> 6" "0 \<le> s" "s \<le> 1"
  shows "\<exists>k::int. calculateRiskFallback (Num r) (Num w) (Num s) = Num (of_int k) \<and>
           0 \<le> k \<and> k \<le> 100"
  using assms(1) by (rule calc_range)

theorem heuristic_score_in_range_witness:
  "(0::real) \<le> 60 \<and> (60::real) \<le> 60 \<and> (0::real) \<le> 6 \<and> (6::real) \<le> 6 \<and> (0::real) \<le> 1 \<and> (1::real) \<le> 1 \<and>
   (\<exists>k::int. calculateRiskFallback (Num 60) (Num 6) (Num 1) = Num (of_int k) \<and>
           0 \<le> k \<and> k \<le> 100)"
  using heuristic_score_in_range [of 60 6 1] by simp

text \<open>
  Claim C4: the factor 1.3 is applied to the bucket sum if and only if rainfall is above
  20, water level above 3 and soil moisture above 0.7, all strictly. When the three hold
  the score is the rounded, capped product; when one of them fails it is the rounded,
  capped sum itself. The input (20, 3, 0.7) is scored without the factor (sum 38, score
  38) and the input (20.1, 3.1, 0.71) with it (sum 60, score 78).
\<close>

theorem combined_multiplier_iff_all_three:
  "(r > 20 \<and> w > 3 \<and> s > 0.7 \<longrightarrow>
      calculateRiskFallback (Num r) (Num w) (Num s) =
        Math_min (Math_round (Math_min (mul (Num (bucketSum r w s)) (Num 1.3)) (Num 100)))
          (Num 100)) \<and>
   (\<not> (r > 20 \<and> w > 3 \<and> s > 0.7) \<longrightarrow>
      calculateRiskFallback (Num r) (Num w) (Num s) =
        Math_min (Math_round (Num (bucketSum r w s))) (Num 100)) \<and>
   bucketSum 20 3 0.7 = 38 \<and>
   calculateRiskFallback (Num 20) (Num 3) (Num 0.7) = Num 38 \<and>
   bucketSum 20.1 3.1 0.71 = 60 \<and>
   calculateRiskFallback (Num 20.1) (Num 3.1) (Num 0.71) = Num 78"
proof -
  have "calculateRiskFallback (Num 20) (Num 3) (Num 0.7) = Num 38"
    by (simp add: calculateRiskFallback_def)
  moreover have "calculateRiskFallback (Num 20.1) (Num 3.1) (Num 0.71) = Num 78"
    by (simp add: calculateRiskFallback_def)
  moreover have "bucketSum 20 3 0.7 = 38" "bucketSum 20.1 3.1 0.71 = 60"
    by (simp_all add: bucketSum_def rainfallPoints_def waterPoints_def soilPoints_def)
  ultimately show ?thesis
    by (simp add: calc_Num heuristic_def combinedRisk_def)
qed

theorem combined_multiplier_witness:
  "(20.1::real) > 20 \<and> (3.1::real) > 3 \<and> (0.71::real) > 0.7 \<and>
   calculateRiskFallback (Num 20.1) (Num 3.1) (Num 0.71) =
     Math_min (Math_round (Math_min (mul (Num 60) (Num 1.3)) (Num 100))) (Num 100) \<and>
   \<not> ((20::real) > 20 \<and> (3::real) > 3 \<and> (0.7::real) > 0.7) \<and>
   calculateRiskFallback (Num 20) (Num 3) (Num 0.7) = Math_min (Math_round (Num 38)) (Num 100)"
  using combined_multiplier_iff_all_three [of "20.1" "3.1" "0.71"] combined_multiplier_iff_all_three [of 20 3 "0.7"] by simp

text \<open>
  Claim C8: over rainfall in [0,60], water level in [0,6] and soil moisture in [0,1] the
  heuristic is non-decreasing in each argument with the other two fixed, and the score
  at (51, 2, 0.1) is strictly above the score at (49, 2, 0.1).
\<close>

theorem heuristic_monotone:
  "(0 \<le> r1 \<and> r1 \<le> r2 \<and> r2 \<le> 60 \<and> 0 \<le> w \<and> w \<le> 6 \<and> 0 \<le> s \<and> s \<le> 1 \<longrightarrow>
      le (calculateRiskFallback (Num r1) (Num w) (Num s))
         (calculateRiskFallback (Num r2) (Num w) (Num s))) \<and>
   (0 \<le> r \<and> r \<le> 60 \<and> 0 \<le> w1 \<and> w1 \<le> w2 \<and> w2 \<le> 6 \<and> 0 \<le> s \<and> s \<le> 1 \<longrightarrow>
      le (calculateRiskFallback (Num r) (Num w1) (Num s))
         (calculateRiskFallback (Num r) (Num w2) (Num s))) \<and>
   (0 \<le> r \<and> r \<le> 60 \<and> 0 \<le> w \<and> w \<le> 6 \<and> 0 \<le> s1 \<and> s1 \<le> s2 \<and> s2 \<le> 1 \<longrightarrow>
      le (calculateRiskFallback (Num r) (Num w) (Num s1))
         (calculateRiskFallback (Num r) (Num w) (Num s2))) \<and>
   gt (calculateRiskFallback (Num 51) (Num 2) (Num 0.1))
      (calculateRiskFallback (Num 49) (Num 2) (Num 0.1))"
proof -
  have "gt (calculateRiskFallback (Num 51) (Num 2) (Num 0.1))
      (calculateRiskFallback (Num 49) (Num 2) (Num 0.1))"
    by (simp add: calculateRiskFallback_def)
  then show ?thesis
    by (simp add: calc_Num heuristic_mono)
qed

theorem heuristic_monotone_witness:
  "(0::real) \<le> 49 \<and> (49::real) \<le> 51 \<and> (51::real) \<le> 60 \<and> (0::real) \<le> 2 \<and> (2::real) \<le> 6 \<and>
   (0::real) \<le> 0.1 \<and> (0.1::real) \<le> 1 \<and>
   le (calculateRiskFallback (Num 49) (Num 2) (Num 0.1))
      (calculateRiskFallback (Num 51) (Num 2) (Num 0.1)) \<and>
   (0::real) \<le> 2.5 \<and> (2.5::real) \<le> 2.6 \<and> (2.6::real) \<le> 6 \<and>
   le (calculateRiskFallback (Num 49) (Num 2.5) (Num 0.1))
      (calculateRiskFallback (Num 49) (Num 2.6) (Num 0.1)) \<and>
   (0::real) \<le> 0.7 \<and> (0.7::real) \<le> 0.71 \<and> (0.71::real) \<le> 1 \<and>
   le (calculateRiskFallback (Num 49) (Num 2) (Num 0.7))
      (calculateRiskFallback (Num 49) (Num 2) (Num 0.71))"
  using heuristic_monotone [of 49 51 2 "0.1" 49 "2.5" "2.6" "0.7" "0.71"] by simp


section \<open>The claims about the risk engine\<close>

lemma engine_inv_init: "engine_inv engine_init"
  by (simp add: engine_inv_def engine_init_def)

lemma loadModel_inv: "engine_inv st \<Longrightarrow> engine_inv (snd (loadModel env st))"
  by (auto simp: engine_inv_def loadModel_def Let_def split: sum.splits if_splits)

lemma predict_state: "snd (predictFloodRisk env r w s st) = snd (loadModel env st)"
  by (simp add: predictFloodRisk_def Let_def split: prod.splits option.splits sum.splits)

lemma scoreAll_inv: "engine_inv st \<Longrightarrow> engine_inv (scoreAll calls st)"
  by (induction calls arbitrary: st) (simp_all add: predict_state loadModel_inv)

lemma loadModel_attempted:
  "modelLoadAttempted st \<Longrightarrow> model st = None \<Longrightarrow> loadModel env st = (None, st)"
  by (simp add: loadModel_def)

lemma predict_attempted:
  "modelLoadAttempted st \<Longrightarrow> model st = None \<Longrightarrow>
   predictFloodRisk env r w s st = (calculateRiskFallback r w s, st)"
  by (simp add: predictFloodRisk_def loadModel_attempted)

lemma loadModel_loaded: "model st = Some m \<Longrightarrow> loadModel env st = (Some m, st)"
  by (simp add: loadModel_def)

lemma loadModel_failure:
  "\<not> modelLoadAttempted st \<Longrightarrow> model st = None \<Longrightarrow>
   (\<not> tfjs_ready env \<and> \<not> tfjs_node env) \<or> \<not> model_file_exists env \<or> loadLayersModel env = Inl e \<Longrightarrow>
   usingFallback (snd (loadModel env st)) \<and> fst (loadModel env st) = None"
  by (auto simp: loadModel_def Let_def)

text \<open>
  Claim C5: in the state after any sequence of scoring calls of a process, the load has
  been attempted at most once; if the attempt has been made and no model is loaded,
  \<open>loadModel\<close> returns nothing and leaves the state as it is, whatever it would find
  outside; if the engine has fallen back, a scoring call returns the heuristic's score
  and leaves the state as it is, so the fallback lasts. A first load that finds no
  TensorFlow package, no model file or a failing \<^verbatim>\<open>loadLayersModel\<close> enters the fallback.
\<close>

theorem model_load_at_most_once:
  "loadAttempts (scoreAll calls engine_init) \<le> 1 \<and>
   (modelLoadAttempted (scoreAll calls engine_init) \<and> model (scoreAll calls engine_init) = None \<longrightarrow>
      loadModel env (scoreAll calls engine_init) = (None, scoreAll calls engine_init)) \<and>
   (usingFallback (scoreAll calls engine_init) \<longrightarrow>
      predictFloodRisk env r w s (scoreAll calls engine_init) =
        (calculateRiskFallback r w s, scoreAll calls engine_init)) \<and>
   ((\<not> tfjs_ready env0 \<and> \<not> tfjs_node env0) \<or> \<not> model_file_exists env0 \<or>
    loadLayersModel env0 = Inl e \<longrightarrow>
      usingFallback (snd (predictFloodRisk env0 r0 w0 s0 engine_init)))"
proof -
  let ?st = "scoreAll calls engine_init"
  have inv: "engine_inv ?st"
    by (rule scoreAll_inv) (rule engine_inv_init)
  have "loadAttempts ?st \<le> 1"
    using inv by (simp add: engine_inv_def)
  moreover have "usingFallback ?st \<longrightarrow> modelLoadAttempted ?st \<and> model ?st = None"
    using inv by (simp add: engine_inv_def)
  moreover have "(\<not> tfjs_ready env0 \<and> \<not> tfjs_node env0) \<or> \<not> model_file_exists env0 \<or>
    loadLayersModel env0 = Inl e \<longrightarrow>
      usingFallback (snd (predictFloodRisk env0 r0 w0 s0 engine_init))"
    unfolding predict_state
    using loadModel_failure [of engine_init env0 e] by (simp add: engine_init_def)
  ultimately show ?thesis
    by (simp add: loadModel_attempted predict_attempted)
qed

theorem model_load_at_most_once_witness:
  "usingFallback (scoreAll [\<lparr>call_env = env_model_absent, call_rainfall = Num 0,
        call_waterLevel = Num 2.1, call_soilMoisture = Num 0.5\<rparr>] engine_init) \<and>
   modelLoadAttempted (scoreAll [\<lparr>call_env = env_model_absent, call_rainfall = Num 0,
        call_waterLevel = Num 2.1, call_soilMoisture = Num 0.5\<rparr>] engine_init) \<and>
   model (scoreAll [\<lparr>call_env = env_model_absent, call_rainfall = Num 0,
        call_waterLevel = Num 2.1, call_soilMoisture = Num 0.5\<rparr>] engine_init) = None \<and>
   \<not> model_file_exists env_model_absent \<and>
   loadAttempts (scoreAll [\<lparr>call_env = env_model_absent, call_rainfall = Num 0,
        call_waterLevel = Num 2.1, call_soilMoisture = Num 0.5\<rparr>] engine_init) \<le> 1 \<and>
   loadModel env_model_present (scoreAll [\<lparr>call_env = env_model_absent, call_rainfall = Num 0,
        call_waterLevel = Num 2.1, call_soilMoisture = Num 0.5\<rparr>] engine_init) =
     (None, \<lparr>model = None, modelLoadAttempted = True, usingFallback = True, loadAttempts = 1\<rparr>) \<and>
   predictFloodRisk env_model_present (Num 45) (Num 4.2) (Num 0.7)
      (scoreAll [\<lparr>call_env = env_model_absent, call_rainfall = Num 0,
        call_waterLevel = Num 2.1, call_soilMoisture = Num 0.5\<rparr>] engine_init) =
     (Num 74, \<lparr>model = None, modelLoadAttempted = True, usingFallback = True, loadAttempts = 1\<rparr>) \<and>
   usingFallback (snd (predictFloodRisk env_model_absent (Num 0) (Num 2.1) (Num 0.5) engine_init))"
proof -
  have st: "scoreAll [\<lparr>call_env = env_model_absent, call_rainfall = Num 0,
        call_waterLevel = Num 2.1, call_soilMoisture = Num 0.5\<rparr>] engine_init =
      \<lparr>model = None, modelLoadAttempted = True, usingFallback = True, loadAttempts = 1\<rparr>"
    by (simp add: predict_state loadModel_def engine_init_def env_model_absent_def)
  have calc: "calculateRiskFallback (Num 45) (Num 4.2) (Num 0.7) = Num 74"
    by (simp add: calculateRiskFallback_def)
  have absent: "\<not> model_file_exists env_model_absent"
    by (simp add: env_model_absent_def)
  show ?thesis
    using model_load_at_most_once [of "[\<lparr>call_env = env_model_absent, call_rainfall = Num 0,
        call_waterLevel = Num 2.1, call_soilMoisture = Num 0.5\<rparr>]" env_model_present
        "Num 45" "Num 4.2" "Num 0.7" env_model_absent "Error ''ENOENT''" "Num 0" "Num 2.1" "Num 0.5"]
    unfolding st using calc absent by simp
qed

text \<open>
  Claim C7: with a model loaded, a scoring call whose inference throws returns the
  heuristic's score and leaves the engine's state unchanged, the model reference and
  the fallback flag in particular; a next call whose inference succeeds returns the
  model's clamped output.
\<close>

theorem inference_failure_is_transient:
  assumes "model st = Some m"
    and "predict env m [divide_num r (Num 50), s, divide_num w (Num 6), Num 0.05, Num 0.05] = Inl e"
  shows "predictFloodRisk env r w s st = (calculateRiskFallback r w s, st) \<and>
         model (snd (predictFloodRisk env r w s st)) = model st \<and>
         usingFallback (snd (predictFloodRisk env r w s st)) = usingFallback st \<and>
         ((tfjs_ready env' \<or> tfjs_node env') \<and>
          predict env' m [divide_num r' (Num 50), s', divide_num w' (Num 6), Num 0.05, Num 0.05]
            = Inr out \<longrightarrow>
          predictFloodRisk env' r' w' s' (snd (predictFloodRisk env r w s st)) =
            (Math_max (Num 0) (Math_min (Math_round (mul out (Num 100))) (Num 100)), st))"
proof -
  have first: "predictFloodRisk env r w s st = (calculateRiskFallback r w s, st)"
    using assms by (simp add: predictFloodRisk_def loadModel_loaded)
  have "predictFloodRisk env' r' w' s' st =
          (Math_max (Num 0) (Math_min (Math_round (mul out (Num 100))) (Num 100)), st)"
    if "tfjs_ready env' \<or> tfjs_node env'"
      and "predict env' m [divide_num r' (Num 50), s', divide_num w' (Num 6), Num 0.05, Num 0.05]
            = Inr out"
    using that assms(1) by (auto simp: predictFloodRisk_def loadModel_loaded)
  with first show ?thesis by simp
qed

theorem inference_failure_is_transient_witness:
  "model engine_model_ready = Some () \<and>
   predict env_inference_throws ()
     [divide_num (Num 45) (Num 50), Num 0.7, divide_num (Num 4.2) (Num 6), Num 0.05, Num 0.05]
     = Inl (Error ''shape mismatch'') \<and>
   predictFloodRisk env_inference_throws (Num 45) (Num 4.2) (Num 0.7) engine_model_ready =
     (Num 74, engine_model_ready) \<and>
   (tfjs_ready env_model_present \<or> tfjs_node env_model_present) \<and>
   predictFloodRisk env_model_present (Num 45) (Num 4.2) (Num 0.7)
     (snd (predictFloodRisk env_inference_throws (Num 45) (Num 4.2) (Num 0.7) engine_model_ready))
     = (Num 42, engine_model_ready)"
proof -
  have a: "model engine_model_ready = Some ()"
    by (simp add: engine_model_ready_def)
  have b: "predict env_inference_throws ()
     [divide_num (Num 45) (Num 50), Num 0.7, divide_num (Num 4.2) (Num 6), Num 0.05, Num 0.05]
     = Inl (Error ''shape mismatch'')"
    by (simp add: env_inference_throws_def)
  have c: "calculateRiskFallback (Num 45) (Num 4.2) (Num 0.7) = Num 74"
    by (simp add: calculateRiskFallback_def)
  have d: "tfjs_ready env_model_present \<or> tfjs_node env_model_present"
    by (simp add: env_model_present_def)
  have e: "predict env_model_present ()
     [divide_num (Num 45) (Num 50), Num 0.7, divide_num (Num 4.2) (Num 6), Num 0.05, Num 0.05]
     = Inr (Num 0.42)"
    by (simp add: env_model_present_def)
  have f: "Math_max (Num 0) (Math_min (Math_round (mul (Num 0.42) (Num 100))) (Num 100)) = Num 42"
    by simp
  note th = inference_failure_is_transient [OF a b, of env_model_present "Num 45" "Num 0.7" "Num 4.2" "Num 0.42"]
  have first: "predictFloodRisk env_inference_throws (Num 45) (Num 4.2) (Num 0.7)
      engine_model_ready = (Num 74, engine_model_ready)"
    using th [THEN conjunct1] c by simp
  have second: "predictFloodRisk env_model_present (Num 45) (Num 4.2) (Num 0.7)
     (snd (predictFloodRisk env_inference_throws (Num 45) (Num 4.2) (Num 0.7) engine_model_ready))
     = (Num 42, engine_model_ready)"
    using th [THEN conjunct2, THEN conjunct2, THEN conjunct2] d e f by simp
  show ?thesis
    using a b d first second by blast
qed

lemma clamp_range:
  "\<exists>k::int. Math_max (Num 0) (Math_min (Math_round (Num x)) (Num 100)) = Num (of_int k) \<and>
     0 \<le> k \<and> k \<le> 100"
proof -
  have "max 0 (min (real_of_int \<lfloor>x + 1 / 2\<rfloor>) 100) = of_int (max 0 (min \<lfloor>x + 1 / 2\<rfloor> 100))"
    by simp
  moreover have "0 \<le> max 0 (min \<lfloor>x + 1 / 2\<rfloor> 100) \<and> max 0 (min \<lfloor>x + 1 / 2\<rfloor> 100) \<le> 100"
    by simp
  ultimately show ?thesis
    by (metis Math_max.simps(1) Math_min.simps(1) Math_round.simps(1))
qed

lemma predict_model_path:
  "model st = Some m \<Longrightarrow> tfjs_ready env \<or> tfjs_node env \<Longrightarrow>
   predict env m [divide_num r (Num 50), s, divide_num w (Num 6), Num 0.05, Num 0.05] = Inr out \<Longrightarrow>
   predictFloodRisk env r w s st =
     (Math_max (Num 0) (Math_min (Math_round (mul out (Num 100))) (Num 100)), st)"
  by (auto simp: predictFloodRisk_def loadModel_loaded)

text \<open>
  Claim C10, as stated, fails on the model path: with a model loaded whose output is
  \<open>NaN\<close> (here on a water level that is \<open>NaN\<close>), \<open>predictFloodRisk\<close> returns \<open>NaN\<close>,
  which is neither at least 0 nor at most 100: \<^verbatim>\<open>Math.min\<close> and \<^verbatim>\<open>Math.max\<close> pass
  \<open>NaN\<close> on.
\<close>

theorem model_path_passes_NaN_on:
  "fst (predictFloodRisk env_nan_output (Num 0) NaN (Num 0.5) engine_model_ready) = NaN \<and>
   \<not> le (Num 0)
       (fst (predictFloodRisk env_nan_output (Num 0) NaN (Num 0.5) engine_model_ready)) \<and>
   \<not> le (fst (predictFloodRisk env_nan_output (Num 0) NaN (Num 0.5) engine_model_ready))
       (Num 100)"
proof -
  have "fst (predictFloodRisk env_nan_output (Num 0) NaN (Num 0.5) engine_model_ready) = NaN"
    by (simp add: predictFloodRisk_def loadModel_def env_nan_output_def
        engine_model_ready_def)
  then show ?thesis by simp
qed

text \<open>
  Claim C10, amended: for rainfall at least 0 the heuristic returns an integer between 0
  and 100, whatever the other two inputs; at rainfall -5, water level 0 and soil moisture
  0 it returns -5, a negative value; the model path returns
  \<^verbatim>\<open>Math.max(0, Math.min(riskPercent, 100))\<close>, which is an integer between 0 and 100
  for every output of the model that is a number.
\<close>

theorem heuristic_upper_clamp_only:
  "(0 \<le> r \<longrightarrow>
      (\<exists>k::int. calculateRiskFallback (Num r) w s = Num (of_int k) \<and> 0 \<le> k \<and> k \<le> 100)) \<and>
   calculateRiskFallback (Num (- 5)) (Num 0) (Num 0) = Num (- 5) \<and>
   lt (calculateRiskFallback (Num (- 5)) (Num 0) (Num 0)) (Num 0) \<and>
   (model st = Some m \<and> (tfjs_ready env \<or> tfjs_node env) \<and>
    predict env m [divide_num r' (Num 50), s', divide_num w' (Num 6), Num 0.05, Num 0.05]
      = Inr (Num p) \<longrightarrow>
      fst (predictFloodRisk env r' w' s' st) =
        Math_max (Num 0) (Math_min (Math_round (Num (p * 100))) (Num 100)) \<and>
      (\<exists>k::int. fst (predictFloodRisk env r' w' s' st) = Num (of_int k) \<and> 0 \<le> k \<and> k \<le> 100))"
proof -
  have neg: "calculateRiskFallback (Num (- 5)) (Num 0) (Num 0) = Num (- 5)"
    by (simp add: calculateRiskFallback_def)
  have "fst (predictFloodRisk env r' w' s' st) =
        Math_max (Num 0) (Math_min (Math_round (Num (p * 100))) (Num 100))"
    if "model st = Some m" "tfjs_ready env \<or> tfjs_node env"
      "predict env m [divide_num r' (Num 50), s', divide_num w' (Num 6), Num 0.05, Num 0.05]
         = Inr (Num p)"
    using predict_model_path [OF that] by simp
  then show ?thesis
    using neg clamp_range [of "p * 100"] calc_range [of r w s] by simp
qed

theorem heuristic_upper_clamp_only_witness:
  "(0::real) \<le> 0.3 \<and>
   (\<exists>k::int. calculateRiskFallback (Num 0.3) NaN NaN = Num (of_int k) \<and> 0 \<le> k \<and> k \<le> 100) \<and>
   model engine_model_ready = Some () \<and>
   (tfjs_ready env_negative_output \<or> tfjs_node env_negative_output) \<and>
   predict env_negative_output ()
     [divide_num (Num (- 5)) (Num 50), Num 0, divide_num (Num 0) (Num 6), Num 0.05, Num 0.05]
     = Inr (Num (- 0.5)) \<and>
   fst (predictFloodRisk env_negative_output (Num (- 5)) (Num 0) (Num 0) engine_model_ready) = Num 0"
proof -
  have a: "model engine_model_ready = Some ()"
    by (simp add: engine_model_ready_def)
  have b: "tfjs_ready env_negative_output \<or> tfjs_node env_negative_output"
    by (simp add: env_negative_output_def)
  have c: "predict env_negative_output ()
     [divide_num (Num (- 5)) (Num 50), Num 0, divide_num (Num 0) (Num 6), Num 0.05, Num 0.05]
     = Inr (Num (- 0.5))"
    by (simp add: env_negative_output_def)
  have d: "Math_max (Num 0) (Math_min (Math_round (Num (- 0.5 * 100))) (Num 100)) = Num 0"
    by simp
  note th = heuristic_upper_clamp_only [of "0.3" NaN NaN engine_model_ready "()" env_negative_output "Num (- 5)" "Num 0"
      "Num 0" "- 0.5"]
  have first: "\<exists>k::int. calculateRiskFallback (Num 0.3) NaN NaN = Num (of_int k) \<and> 0 \<le> k \<and> k \<le> 100"
    using th [THEN conjunct1] by simp
  have last: "fst (predictFloodRisk env_negative_output (Num (- 5)) (Num 0) (Num 0)
      engine_model_ready) = Num 0"
    using th [THEN conjunct2, THEN conjunct2, THEN conjunct2] a b c d by simp
  show ?thesis
    using a b c first last by simp
qed

section \<open>The claim about the fetch functions\<close>

text \<open>
  Claim C2, as stated, fails for a malformed response: when USGS answers with an empty
  list of time series, \<open>fetchWaterLevel\<close> does not return the pair marked
  \<^verbatim>\<open>fallback\<close>.
\<close>

theorem water_level_default_is_not_marked_fallback:
  "fetchWaterLevel (\<lambda>v. NaN) (Inr (JObj [(''value'', JObj [(''timeSeries'', JArr [])])]))
     \<noteq> \<lparr>rvalue = Num 2.1, rsource = ''fallback''\<rparr>"
  by (simp add: fetchWaterLevel_def fetchWaterLevel_try_def and_then_def opt_getp_def
      opt_get0_def)

text \<open>
  Claim C2, amended: each of the three fetch functions returns its fallback constant
  (0, 2.1, 0.5) with source \<^verbatim>\<open>fallback\<close> whenever the request rejects (timeout, network
  error, status outside 2xx) or reading the response throws, and no error leaves the
  function. When reading the response does not throw, the source is the provider's name,
  also where the value is missing and the default stands in for it: a USGS response
  without a time series gives 2.1 from \<^verbatim>\<open>USGS\<close>, a SoilGrids response with a null mean
  gives 0.5 from \<^verbatim>\<open>SoilGrids\<close>.
\<close>

theorem fetch_failure_gives_fallback:
  "fetchRainfallData (Inl e) = \<lparr>rvalue = Num 0, rsource = ''fallback''\<rparr> \<and>
   fetchWaterLevel parseFloat (Inl e) = \<lparr>rvalue = Num 2.1, rsource = ''fallback''\<rparr> \<and>
   fetchSoilMoisture toNumber (Inl e) = \<lparr>rvalue = Num 0.5, rsource = ''fallback''\<rparr> \<and>
   (fetchRainfallData_try d = Inl e1 \<longrightarrow>
      fetchRainfallData (Inr d) = \<lparr>rvalue = Num 0, rsource = ''fallback''\<rparr>) \<and>
   (fetchWaterLevel_try parseFloat d = Inl e2 \<longrightarrow>
      fetchWaterLevel parseFloat (Inr d) = \<lparr>rvalue = Num 2.1, rsource = ''fallback''\<rparr>) \<and>
   (fetchSoilMoisture_try toNumber d = Inl e3 \<longrightarrow>
      fetchSoilMoisture toNumber (Inr d) = \<lparr>rvalue = Num 0.5, rsource = ''fallback''\<rparr>) \<and>
   (fetchRainfallData_try d = Inr rd1 \<longrightarrow>
      fetchRainfallData (Inr d) = rd1 \<and> rsource rd1 = ''OpenWeatherMap'') \<and>
   (fetchWaterLevel_try parseFloat d = Inr rd2 \<longrightarrow>
      fetchWaterLevel parseFloat (Inr d) = rd2 \<and> rsource rd2 = ''USGS'') \<and>
   (fetchSoilMoisture_try toNumber d = Inr rd3 \<longrightarrow>
      fetchSoilMoisture toNumber (Inr d) = rd3 \<and> rsource rd3 = ''SoilGrids'') \<and>
   fetchWaterLevel parseFloat (Inr usgs_no_series) = \<lparr>rvalue = Num 2.1, rsource = ''USGS''\<rparr> \<and>
   fetchSoilMoisture toNumber (Inr soilgrids_null_mean) =
     \<lparr>rvalue = Num 0.5, rsource = ''SoilGrids''\<rparr>"
proof -
  have rain: "rsource rd1 = ''OpenWeatherMap''" if "fetchRainfallData_try d = Inr rd1"
    using that
    by (auto simp: fetchRainfallData_try_def and_then_def Let_def
        split: sum.splits jsval.splits if_splits)
  have water: "rsource rd2 = ''USGS''" if "fetchWaterLevel_try parseFloat d = Inr rd2"
    using that
    by (auto simp: fetchWaterLevel_try_def and_then_def Let_def split: sum.splits)
  have soil: "rsource rd3 = ''SoilGrids''" if "fetchSoilMoisture_try toNumber d = Inr rd3"
    using that
    by (auto simp: fetchSoilMoisture_try_def and_then_def Let_def split: sum.splits)
  have w0: "fetchWaterLevel parseFloat (Inr usgs_no_series) =
      \<lparr>rvalue = Num 2.1, rsource = ''USGS''\<rparr>"
    by (simp add: usgs_no_series_def fetchWaterLevel_def fetchWaterLevel_try_def and_then_def
        opt_getp_def opt_get0_def)
  have s0: "fetchSoilMoisture toNumber (Inr soilgrids_null_mean) =
     \<lparr>rvalue = Num 0.5, rsource = ''SoilGrids''\<rparr>"
    by (simp add: soilgrids_null_mean_def fetchSoilMoisture_def fetchSoilMoisture_try_def
        and_then_def)
  show ?thesis
    using rain water soil w0 s0
    by (simp add: fetchRainfallData_def fetchWaterLevel_def fetchSoilMoisture_def and_then_def)
qed

theorem fetch_failure_gives_fallback_witness:
  "fetchRainfallData_try (JObj []) = Inl TypeError \<and>
   fetchRainfallData (Inr (JObj [])) = \<lparr>rvalue = Num 0, rsource = ''fallback''\<rparr> \<and>
   fetchWaterLevel_try (\<lambda>v. NaN) JNull = Inl TypeError \<and>
   fetchWaterLevel (\<lambda>v. NaN) (Inr JNull) = \<lparr>rvalue = Num 2.1, rsource = ''fallback''\<rparr> \<and>
   fetchSoilMoisture_try (\<lambda>v. NaN) (JObj []) = Inl TypeError \<and>
   fetchSoilMoisture (\<lambda>v. NaN) (Inr (JObj [])) = \<lparr>rvalue = Num 0.5, rsource = ''fallback''\<rparr> \<and>
   fetchRainfallData (Inl Timeout) = \<lparr>rvalue = Num 0, rsource = ''fallback''\<rparr> \<and>
   fetchWaterLevel (\<lambda>v. NaN) (Inl (HttpStatus 503)) = \<lparr>rvalue = Num 2.1, rsource = ''fallback''\<rparr> \<and>
   fetchSoilMoisture (\<lambda>v. NaN) (Inl NetworkError) = \<lparr>rvalue = Num 0.5, rsource = ''fallback''\<rparr> \<and>
   fetchWaterLevel_try (\<lambda>v. NaN) usgs_no_series = Inr \<lparr>rvalue = Num 2.1, rsource = ''USGS''\<rparr> \<and>
   fetchWaterLevel (\<lambda>v. NaN) (Inr usgs_no_series) = \<lparr>rvalue = Num 2.1, rsource = ''USGS''\<rparr>"
proof -
  have r: "fetchRainfallData_try (JObj []) = Inl TypeError"
    by (simp add: fetchRainfallData_try_def and_then_def)
  have w: "fetchWaterLevel_try (\<lambda>v. NaN) JNull = Inl TypeError"
    by (simp add: fetchWaterLevel_try_def and_then_def)
  have s: "fetchSoilMoisture_try (\<lambda>v. NaN) (JObj []) = Inl TypeError"
    by (simp add: fetchSoilMoisture_try_def and_then_def)
  have u: "fetchWaterLevel_try (\<lambda>v. NaN) usgs_no_series =
      Inr \<lparr>rvalue = Num 2.1, rsource = ''USGS''\<rparr>"
    by (simp add: usgs_no_series_def fetchWaterLevel_try_def and_then_def opt_getp_def
        opt_get0_def)
  show ?thesis
    using r w s u
      fetch_failure_gives_fallback [of Timeout "\<lambda>v. NaN" "\<lambda>v. NaN" "JObj []" TypeError]
      fetch_failure_gives_fallback [of "HttpStatus 503" "\<lambda>v. NaN" "\<lambda>v. NaN" JNull _ TypeError]
      fetch_failure_gives_fallback [of NetworkError "\<lambda>v. NaN" "\<lambda>v. NaN" "JObj []" _ _ TypeError]
      fetch_failure_gives_fallback [of _ "\<lambda>v. NaN" _ usgs_no_series _ _ _ _ "\<lparr>rvalue = Num 2.1, rsource = ''USGS''\<rparr>"]
    by simp
qed

section \<open>The claims about alerts and the manual trigger\<close>

lemma sendFloodAlert_noop: "sentAlert data \<Longrightarrow> sendFloodAlert a b data st = (data, st)"
  by (simp add: sendFloodAlert_def)

lemma sendFloodAlert_flag:
  "sentAlert (fst (sendFloodAlert a b data st)) \<longleftrightarrow>
     sentAlert data \<or> (firebaseInitialized st \<and> a)"
  by (auto simp: sendFloodAlert_def Let_def)

lemma sendFloodAlert_requests:
  "length (fcm_requests (snd (sendFloodAlert a b data st))) \<le> length (fcm_requests st) + 1"
  by (simp add: sendFloodAlert_def Let_def)

lemma sendFloodAlert_db:
  "db (snd (sendFloodAlert a b data st)) =
     (if firebaseInitialized st \<and> \<not> sentAlert data \<and> a \<and> b
      then save_doc (data\<lparr>sentAlert := True\<rparr>) (db st) else db st)"
  by (simp add: sendFloodAlert_def Let_def)

lemma alertAttempts_sorted:
  "sorted (map sentAlert (data # alertAttempts outcomes data st))"
proof (induction outcomes arbitrary: data st)
  case Nil
  show ?case by simp
next
  case (Cons o1 rest)
  obtain a b where o1: "o1 = (a, b)" by (cases o1)
  obtain data1 st1 where step: "sendFloodAlert a b data st = (data1, st1)"
    by (cases "sendFloodAlert a b data st")
  have eq: "alertAttempts (o1 # rest) data st = data1 # alertAttempts rest data1 st1"
    unfolding o1 by (simp add: step)
  have "sentAlert (fst (sendFloodAlert a b data st)) \<longleftrightarrow>
     sentAlert data \<or> (firebaseInitialized st \<and> a)"
    by (rule sendFloodAlert_flag)
  then have le: "sentAlert data \<le> sentAlert data1"
    unfolding step fst_conv by (simp add: le_bool_def)
  have tail: "sorted (map sentAlert (data1 # alertAttempts rest data1 st1))"
    by (rule Cons.IH)
  from le tail show ?case
    unfolding eq list.map(2) sorted2 by (rule conjI)
qed

lemma cron_task_requests:
  "length (fcm_requests (cron_task env st)) \<le> length (fcm_requests st) + 1"
proof -
  obtain riskPercent eng where p:
    "predictFloodRisk (tf env) (rvalue (fetchRainfallData (owm env)))
       (rvalue (fetchWaterLevel (js_parseFloat env) (usgs env)))
       (rvalue (fetchSoilMoisture (js_toNumber env) (soilgrids env))) (engine st)
     = (riskPercent, eng)"
    by (cases "predictFloodRisk (tf env) (rvalue (fetchRainfallData (owm env)))
       (rvalue (fetchWaterLevel (js_parseFloat env) (usgs env)))
       (rvalue (fetchSoilMoisture (js_toNumber env) (soilgrids env))) (engine st)")
  have step: "length (fcm_requests (snd (sendFloodAlert a b d st3))) \<le> Suc (length (fcm_requests st))"
    if "fcm_requests st3 = fcm_requests st" for a b d and st3 :: "'a server"
    using sendFloodAlert_requests [of a b d st3] that by simp
  show ?thesis
    unfolding cron_task_def p Let_def prod.case
    by (simp add: step)
qed

lemma sendFloodAlert_send_fails:
  "\<not> a \<Longrightarrow> fst (sendFloodAlert a b data st) = data \<and>
     db (snd (sendFloodAlert a b data st)) = db st"
  by (simp add: sendFloodAlert_def Let_def)

text \<open>
  Claim C6: an alert attempt on a record whose \<open>sentAlert\<close> is set changes nothing;
  after an attempt the flag is set exactly if it was set before or the send succeeded
  (with Firebase initialised), so it never reverts; the stored record changes only when
  the send and the save both succeed, and then to the record with the flag set; when
  the send fails, record and store stay as they were; one attempt makes at most one
  send request, and so does one whole cycle; over any sequence of attempts on a record
  the flag goes from false to true at most once.
\<close>

theorem sentAlert_set_once:
  "(sentAlert data \<longrightarrow> sendFloodAlert a b data st = (data, st)) \<and>
   (sentAlert (fst (sendFloodAlert a b data st)) \<longleftrightarrow>
      sentAlert data \<or> (firebaseInitialized st \<and> a)) \<and>
   db (snd (sendFloodAlert a b data st)) =
     (if firebaseInitialized st \<and> \<not> sentAlert data \<and> a \<and> b
      then save_doc (data\<lparr>sentAlert := True\<rparr>) (db st) else db st) \<and>
   (\<not> a \<longrightarrow> fst (sendFloodAlert a b data st) = data \<and>
      db (snd (sendFloodAlert a b data st)) = db st) \<and>
   length (fcm_requests (snd (sendFloodAlert a b data st))) \<le> length (fcm_requests st) + 1 \<and>
   length (fcm_requests (cron_task env st)) \<le> length (fcm_requests st) + 1 \<and>
   sorted (map sentAlert (data # alertAttempts outcomes data st))"
  by (intro conjI impI sendFloodAlert_noop sendFloodAlert_flag sendFloodAlert_db
      sendFloodAlert_requests cron_task_requests alertAttempts_sorted)
     (simp_all add: sendFloodAlert_send_fails)

lemma example_flags:
  "firebaseInitialized example_server" "\<not> sentAlert example_record"
  "db example_server = [example_record]"
  by (simp_all add: example_server_def server_init_def example_record_def)

lemma example_save:
  "save_doc (example_record\<lparr>sentAlert := True\<rparr>) [example_record] =
      [example_record\<lparr>sentAlert := True\<rparr>]"
  by (simp add: save_doc_def)

theorem sentAlert_set_once_witness:
  "sentAlert (example_record\<lparr>sentAlert := True\<rparr>) \<and>
   sendFloodAlert True True (example_record\<lparr>sentAlert := True\<rparr>) example_server =
     (example_record\<lparr>sentAlert := True\<rparr>, example_server) \<and>
   \<not> sentAlert example_record \<and>
   fst (sendFloodAlert False True example_record example_server) = example_record \<and>
   db (snd (sendFloodAlert False True example_record example_server)) = [example_record] \<and>
   sentAlert (fst (sendFloodAlert True True example_record example_server)) \<and>
   db (snd (sendFloodAlert True True example_record example_server)) =
     [example_record\<lparr>sentAlert := True\<rparr>] \<and>
   sorted (map sentAlert (example_record #
     alertAttempts [(False, True), (True, True), (True, True)] example_record example_server))"
proof -
  have a: "sentAlert (example_record\<lparr>sentAlert := True\<rparr>)" by simp
  have k: "sorted (map sentAlert (example_record #
     alertAttempts [(False, True), (True, True), (True, True)] example_record example_server))"
    using sentAlert_set_once [of example_record False True example_server env_all_down
        "[(False, True), (True, True), (True, True)]"]
    by blast
  note t1 = sentAlert_set_once [of "example_record\<lparr>sentAlert := True\<rparr>" True True example_server]
  note t2 = sentAlert_set_once [of example_record False True example_server]
  note t3 = sentAlert_set_once [of example_record True True example_server]
  have g: "sendFloodAlert True True (example_record\<lparr>sentAlert := True\<rparr>) example_server =
     (example_record\<lparr>sentAlert := True\<rparr>, example_server)"
    using t1 [THEN conjunct1] a by blast
  have h: "fst (sendFloodAlert False True example_record example_server) = example_record \<and>
     db (snd (sendFloodAlert False True example_record example_server)) = [example_record]"
    using t2 [THEN conjunct2, THEN conjunct2, THEN conjunct2, THEN conjunct1]
    by (simp add: example_flags)
  have i: "sentAlert (fst (sendFloodAlert True True example_record example_server))"
    using t3 [THEN conjunct2, THEN conjunct1] by (simp add: example_flags)
  have j: "db (snd (sendFloodAlert True True example_record example_server)) =
     [example_record\<lparr>sentAlert := True\<rparr>]"
    using t3 [THEN conjunct2, THEN conjunct2, THEN conjunct1]
    by (simp add: example_flags example_save)
  show ?thesis
    using a example_flags(2) g h i j k by blast
qed


text \<open>
  Claim C9 does not hold of the code: the handler of \<^verbatim>\<open>POST /api/trigger\<close> answers and
  leaves the state as it is, where one cycle stores and broadcasts a record. From the
  initial state the trigger leaves the collection and the broadcasts empty; the
  scheduled task, with every provider down, adds one record to each.
\<close>

theorem manual_trigger_runs_no_cycle:
  "post_api_trigger st = (''Data fetch triggered'', st) \<and>
   db (snd (post_api_trigger (server_init True :: unit server))) = [] \<and>
   emitted (snd (post_api_trigger (server_init True :: unit server))) = [] \<and>
   length (db (cron_task env_all_down (server_init True))) = 1 \<and>
   length (emitted (cron_task env_all_down (server_init True))) = 1"
proof -
  have "length (db (cron_task env_all_down (server_init True))) = 1 \<and>
        length (emitted (cron_task env_all_down (server_init True))) = 1"
    by (simp add: env_all_down_def env_model_absent_def cron_task_def server_init_def
        engine_init_def predictFloodRisk_def loadModel_def fetchRainfallData_def
        fetchWaterLevel_def fetchSoilMoisture_def and_then_def calculateRiskFallback_def
        riskLevelOf_def save_doc_def sendFloodAlert_def Let_def)
  then show ?thesis
    by (simp add: post_api_trigger_def manual_task_def server_init_def)
qed

theorem manual_trigger_runs_no_cycle_witness:
  "post_api_trigger (cron_task env_all_down (server_init True)) =
     (''Data fetch triggered'', cron_task env_all_down (server_init True)) \<and>
   length (db (snd (post_api_trigger (cron_task env_all_down (server_init True))))) = 1"
proof -
  note th = manual_trigger_runs_no_cycle [of "cron_task env_all_down (server_init True)"]
  have a: "post_api_trigger (cron_task env_all_down (server_init True)) =
     (''Data fetch triggered'', cron_task env_all_down (server_init True))"
    using th by (rule conjunct1)
  have b: "length (db (cron_task env_all_down (server_init True))) = 1"
    using th by blast
  show ?thesis
    unfolding a snd_conv using b by simp
qed

end
